theory Spec2Isabelle
  imports Complex_Main
begin

section \<open>The Akson web client: study sessions over flashcard decks\<close>

text \<open>
  The client is the JavaScript class \<open>AksonApp\<close>. Its fields are the state of the
  model, its methods are functions from state to state. Three things of the browser are
  made explicit.

  \<^item> Objects are references. A card object is reachable from its deck's \<open>cards\<close> array
    and, while a session runs, from the session's \<open>cards\<close> array; the model keeps card
    objects in a heap (a list, an address is an index, allocation appends) and both arrays
    hold addresses. A deck object is reachable from \<open>this.decks\<close> only and the session
    object from \<open>this.currentStudySession\<close> only, so they are kept by value.
  \<^item> The clock and the form fields a handler reads are arguments of its model.
  \<^item> Of the page, the elements of the study view that the session methods write are
    kept (record \<open>study_dom\<close>); the dashboard and deck list are output only and are not
    modelled, nor is \<open>localStorage\<close>, nor the width of the progress bar (a floating-point
    percentage). Calls into the page are taken to succeed.

  An exception that leaves a method is the value \<open>Inl\<close> of its result. The one
  exception the modelled methods can raise is the \<open>TypeError\<close> of a property write on
  \<open>undefined\<close>; the state is then as it was before the call, since nothing was written
  before that point.
\<close>

subsection \<open>Data\<close>

type_synonym addr = nat

datatype js_error = TypeError

text \<open>An argument as JavaScript passes it: no check of its type is made by a callee.\<close>

datatype js_value = Undefined | Str string | Num real

datatype view = DashboardView | DecksView | StudyView

text \<open>
  The card literal of \<open>handleAddCard\<close>, with \<open>lastReviewed\<close> absent until
  \<open>rateCard\<close> writes it. Times are the ISO strings the source stores; numbers are
  stored and copied, never computed with.
\<close>

record card =
  card_id :: string
  question :: string
  answer :: string
  card_createdAt :: string
  nextReview :: string
  interval :: real
  easeFactor :: real
  repetitions :: real
  lastReviewed :: "string option"

record deck =
  deck_id :: string
  deck_name :: string
  deck_description :: string
  deck_createdAt :: string
  deck_cards :: "addr list"

record session =
  session_deckId :: string
  session_cards :: "addr list"
  currentIndex :: nat

text \<open>
  The study view: three text nodes, the \<open>style.display\<close> of three containers, and the
  two numbers interpolated into the progress text \<open>X/Y\<close>.
\<close>

record study_dom =
  question_text :: string
  answer_text :: string
  current_deck_name :: string
  answer_container_display :: string
  show_answer_btn_display :: string
  rating_buttons_display :: string
  progress_text :: "nat \<times> nat"

record app =
  currentView :: view
  decks :: "deck list"
  heap :: "card list"
  currentStudySession :: "session option"
  currentCardIndex :: nat
  currentDeckId :: "string option"
  dom :: study_dom

subsection \<open>Helpers of the language\<close>

text \<open>
  \<open>String.prototype.trim\<close>. A string is the list of its UTF-8 bytes, so a code point
  is one to three bytes here. \<open>white_space\<close> lists the code points that \<open>trim\<close>
  removes: the WhiteSpace of the language (TAB, VT, FF, SP, NBSP, ZWNBSP and the
  category Zs) and its LineTerminator (LF, CR, LS, PS).
\<close>

definition white_space :: "string list" where
  "white_space =
     [[CHR 0x09], [CHR 0x0A], [CHR 0x0B], [CHR 0x0C], [CHR 0x0D], [CHR 0x20],
      [CHR 0xC2, CHR 0xA0],
      [CHR 0xE1, CHR 0x9A, CHR 0x80],
      [CHR 0xE2, CHR 0x80, CHR 0x80], [CHR 0xE2, CHR 0x80, CHR 0x81],
      [CHR 0xE2, CHR 0x80, CHR 0x82], [CHR 0xE2, CHR 0x80, CHR 0x83],
      [CHR 0xE2, CHR 0x80, CHR 0x84], [CHR 0xE2, CHR 0x80, CHR 0x85],
      [CHR 0xE2, CHR 0x80, CHR 0x86], [CHR 0xE2, CHR 0x80, CHR 0x87],
      [CHR 0xE2, CHR 0x80, CHR 0x88], [CHR 0xE2, CHR 0x80, CHR 0x89],
      [CHR 0xE2, CHR 0x80, CHR 0x8A],
      [CHR 0xE2, CHR 0x80, CHR 0xA8], [CHR 0xE2, CHR 0x80, CHR 0xA9],
      [CHR 0xE2, CHR 0x80, CHR 0xAF],
      [CHR 0xE2, CHR 0x81, CHR 0x9F],
      [CHR 0xE3, CHR 0x80, CHR 0x80],
      [CHR 0xEF, CHR 0xBB, CHR 0xBF]]"

text \<open>Removing from the front of \<open>s\<close> every leading occurrence of a sequence of \<open>ws\<close>.\<close>

function strip :: "string list \<Rightarrow> string \<Rightarrow> string" where
  "strip ws s =
     (case find (\<lambda>w. w \<noteq> [] \<and> take (length w) s = w) ws of
        None \<Rightarrow> s
      | Some w \<Rightarrow> strip ws (drop (length w) s))"
  by pat_completeness auto
termination
proof (relation "measure (\<lambda>(ws, s). length s)")
  show "wf (measure (\<lambda>(ws, s). length s))" by simp
next
  fix ws :: "string list" and s w :: string
  assume "find (\<lambda>w. w \<noteq> [] \<and> take (length w) s = w) ws = Some w"
  then have "w \<noteq> []" and "take (length w) s = w"
    by (auto simp: find_Some_iff)
  then have "s \<noteq> []" by auto
  with \<open>w \<noteq> []\<close> show "((ws, drop (length w) s), (ws, s)) \<in> measure (\<lambda>(ws, s). length s)"
    by simp
qed

declare strip.simps [simp del]

definition trim :: "string \<Rightarrow> string" where
  "trim s = rev (strip (map rev white_space) (rev (strip white_space s)))"

text \<open>\<open>!this.currentDeckId\<close>: \<open>null\<close> and the empty string are falsy.\<close>

definition falsy :: "string option \<Rightarrow> bool" where
  "falsy v = (case v of None \<Rightarrow> True | Some s \<Rightarrow> s = [])"

text \<open>
  \<open>this.decks.find(d => d.id === deckId)\<close> is \<^const>\<open>find\<close>. A write to the deck
  object it returns is a write to the first matching element of \<open>this.decks\<close>.
\<close>

fun update_first :: "('a \<Rightarrow> bool) \<Rightarrow> ('a \<Rightarrow> 'a) \<Rightarrow> 'a list \<Rightarrow> 'a list" where
  "update_first p f [] = []"
| "update_first p f (x # xs) = (if p x then f x # xs else x # update_first p f xs)"

text \<open>\<open>card.lastReviewed = t\<close> for the card object at address \<open>a\<close>.\<close>

definition setLastReviewed :: "addr \<Rightarrow> string \<Rightarrow> card list \<Rightarrow> card list" where
  "setLastReviewed a t h = h[a := (h ! a)\<lparr>lastReviewed := Some t\<rparr>]"

subsection \<open>Methods of AksonApp\<close>

text \<open>
  The constructor: \<open>loadDecks\<close> parses what storage holds (decks and their cards) or
  gives the empty list; the page is as the document delivered it.
\<close>

definition AksonApp :: "(deck list \<times> card list) option \<Rightarrow> study_dom \<Rightarrow> app" where
  "AksonApp saved page =
     \<lparr>currentView = DashboardView,
      decks = (case saved of None \<Rightarrow> [] | Some s \<Rightarrow> fst s),
      heap = (case saved of None \<Rightarrow> [] | Some s \<Rightarrow> snd s),
      currentStudySession = None,
      currentCardIndex = 0,
      currentDeckId = None,
      dom = page\<rparr>"

text \<open>
  \<open>handleAddDeck\<close>: \<open>name\<close> and \<open>description\<close> are the form fields, \<open>idNow\<close> is
  \<open>Date.now().toString()\<close> and \<open>createdNow\<close> is \<open>new Date().toISOString()\<close>.
\<close>

definition handleAddDeck :: "string \<Rightarrow> string \<Rightarrow> string \<Rightarrow> string \<Rightarrow> app \<Rightarrow> app" where
  "handleAddDeck name description idNow createdNow st =
     (if trim name = [] then st
      else st\<lparr>decks := decks st @
             [\<lparr>deck_id = idNow, deck_name = trim name, deck_description = trim description,
               deck_createdAt = createdNow, deck_cards = []\<rparr>]\<rparr>)"

text \<open>
  \<open>handleAddCard\<close>: \<open>deckId\<close>, \<open>q\<close> and \<open>a\<close> are the form fields; \<open>idNow\<close>,
  \<open>createdNow\<close> and \<open>reviewNow\<close> are the three readings of the clock, in the order of
  the literal.
\<close>

definition newCard :: "string \<Rightarrow> string \<Rightarrow> string \<Rightarrow> string \<Rightarrow> string \<Rightarrow> card" where
  "newCard q a idNow createdNow reviewNow =
     \<lparr>card_id = idNow, question = trim q, answer = trim a, card_createdAt = createdNow,
      nextReview = reviewNow, interval = 0, easeFactor = 2.5, repetitions = 0,
      lastReviewed = None\<rparr>"

definition handleAddCard ::
  "string \<Rightarrow> string \<Rightarrow> string \<Rightarrow> string \<Rightarrow> string \<Rightarrow> string \<Rightarrow> app \<Rightarrow> app" where
  "handleAddCard deckId q a idNow createdNow reviewNow st =
     (if trim q = [] \<or> trim a = [] then st
      else case find (\<lambda>d. deck_id d = deckId) (decks st) of
        None \<Rightarrow> st
      | Some d \<Rightarrow>
          st\<lparr>heap := heap st @ [newCard q a idNow createdNow reviewNow],
             decks := update_first (\<lambda>d. deck_id d = deckId)
                        (\<lambda>d. d\<lparr>deck_cards := deck_cards d @ [length (heap st)]\<rparr>) (decks st)\<rparr>)"

text \<open>\<open>deleteDeck\<close>: \<open>confirmed\<close> is the answer to the \<open>confirm\<close> dialog.\<close>

definition deleteDeck :: "string \<Rightarrow> bool \<Rightarrow> app \<Rightarrow> app" where
  "deleteDeck deckId confirmed st =
     (if confirmed then st\<lparr>decks := filter (\<lambda>d. deck_id d \<noteq> deckId) (decks st)\<rparr> else st)"

text \<open>The branch of \<open>nextCard\<close> taken when there is no session or no card left.\<close>

definition show_completed :: "study_dom \<Rightarrow> study_dom" where
  "show_completed d =
     d\<lparr>question_text := ''Study session completed!'',
       answer_container_display := ''none'',
       show_answer_btn_display := ''none'',
       rating_buttons_display := ''none''\<rparr>"

definition show_card :: "card \<Rightarrow> nat \<Rightarrow> nat \<Rightarrow> study_dom \<Rightarrow> study_dom" where
  "show_card c i n d =
     d\<lparr>question_text := question c,
       answer_text := answer c,
       answer_container_display := ''none'',
       show_answer_btn_display := ''block'',
       rating_buttons_display := ''none'',
       progress_text := (i, n)\<rparr>"

definition nextCard :: "app \<Rightarrow> app" where
  "nextCard st =
     (case currentStudySession st of
        None \<Rightarrow> st\<lparr>dom := show_completed (dom st)\<rparr>
      | Some s \<Rightarrow>
          if currentIndex s \<ge> length (session_cards s)
          then st\<lparr>dom := show_completed (dom st)\<rparr>
          else st\<lparr>dom := show_card (heap st ! (session_cards s ! currentIndex s))
                             (currentIndex s) (length (session_cards s)) (dom st)\<rparr>)"

definition showAnswer :: "app \<Rightarrow> app" where
  "showAnswer st =
     st\<lparr>dom := (dom st)\<lparr>answer_container_display := ''block'',
                         show_answer_btn_display := ''none'',
                         rating_buttons_display := ''flex''\<rparr>\<rparr>"

text \<open>The two early exits of \<open>renderStudyView\<close>.\<close>

definition show_no_deck :: "study_dom \<Rightarrow> study_dom" where
  "show_no_deck d =
     d\<lparr>question_text := ''Select a deck to begin studying'',
       current_deck_name := ''Select a deck to start studying'',
       progress_text := (0, 0)\<rparr>"

definition show_no_cards :: "deck option \<Rightarrow> study_dom \<Rightarrow> study_dom" where
  "show_no_cards found d =
     d\<lparr>question_text := ''This deck has no cards. Add some cards to start studying.'',
       current_deck_name := (case found of Some k \<Rightarrow> deck_name k | None \<Rightarrow> ''Unknown Deck''),
       progress_text := (0, 0)\<rparr>"

text \<open>
  \<open>switchView\<close>, \<open>renderStudyView\<close> and \<open>startStudySession\<close> call one another:
  starting a session switches to the study view, rendering the study view starts a
  session when none exists. The recursion ends because a started session is never
  started again. \<open>renderDashboard\<close> and \<open>renderDecks\<close> write to elements outside
  the study view only, so the two other views just record the switch.
\<close>

function switchView :: "view \<Rightarrow> app \<Rightarrow> js_error + app"
  and renderStudyView :: "app \<Rightarrow> js_error + app"
  and startStudySession :: "string \<Rightarrow> app \<Rightarrow> js_error + app"
where
  "switchView viewName st =
     (case viewName of
        DashboardView \<Rightarrow> Inr (st\<lparr>currentView := viewName\<rparr>)
      | DecksView \<Rightarrow> Inr (st\<lparr>currentView := viewName\<rparr>)
      | StudyView \<Rightarrow> renderStudyView (st\<lparr>currentView := viewName\<rparr>))"
| "renderStudyView st =
     (if falsy (currentDeckId st) then Inr (st\<lparr>dom := show_no_deck (dom st)\<rparr>)
      else
        let found = find (\<lambda>d. deck_id d = the (currentDeckId st)) (decks st) in
        if (case found of None \<Rightarrow> True | Some d \<Rightarrow> deck_cards d = [])
        then Inr (st\<lparr>dom := show_no_cards found (dom st)\<rparr>)
        else if currentStudySession st = None
        then (case startStudySession (the (currentDeckId st)) st of
                Inl e \<Rightarrow> Inl e
              | Inr st' \<Rightarrow> Inr (nextCard st'))
        else Inr (nextCard st))"
| "startStudySession deckId st =
     (case find (\<lambda>d. deck_id d = deckId) (decks st) of
        None \<Rightarrow> Inr st
      | Some d \<Rightarrow>
          if deck_cards d = [] then Inr st
          else
            (case switchView StudyView
                    (st\<lparr>currentDeckId := Some deckId,
                        currentCardIndex := 0,
                        currentStudySession :=
                          Some \<lparr>session_deckId = deckId, session_cards = deck_cards d,
                                currentIndex = 0\<rparr>,
                        dom := (dom st)\<lparr>current_deck_name := deck_name d\<rparr>\<rparr>) of
               Inl e \<Rightarrow> Inl e
             | Inr st' \<Rightarrow> Inr (nextCard st')))"
  by pat_completeness auto
termination
  by (relation "measure (\<lambda>x. case x of
          Inl (v, st) \<Rightarrow> (if currentStudySession st = None then 4 else 1)
        | Inr (Inl st) \<Rightarrow> (if currentStudySession st = None then 3 else 0)
        | Inr (Inr (d, st)) \<Rightarrow> 2)") auto

declare switchView.simps [simp del] renderStudyView.simps [simp del]
  startStudySession.simps [simp del]

text \<open>
  \<open>rateCard\<close>: \<open>rating\<close> is the button's \<open>data-rating\<close> (or whatever a caller passes),
  \<open>now\<close> is \<open>new Date().toISOString()\<close>. With the cursor past the last card,
  \<open>cards[currentIndex]\<close> is \<open>undefined\<close> and the write to it raises.
\<close>

definition rateCard :: "js_value \<Rightarrow> string \<Rightarrow> app \<Rightarrow> js_error + app" where
  "rateCard rating now st =
     (case currentStudySession st of
        None \<Rightarrow> Inr st
      | Some s \<Rightarrow>
          if currentIndex s < length (session_cards s)
          then Inr (nextCard
                 (st\<lparr>heap := setLastReviewed (session_cards s ! currentIndex s) now (heap st),
                     currentStudySession := Some (s\<lparr>currentIndex := currentIndex s + 1\<rparr>)\<rparr>))
          else Inl TypeError)"


subsection \<open>The handlers the page wires up\<close>

text \<open>
  \<open>initializeEventListeners\<close> and the inline \<open>onclick\<close> attributes bind each user
  action to one method. An exception that leaves a handler ends that handler and the page
  goes on with the state it had.
\<close>

datatype event =
    Navigate view
  | SubmitDeck string string string string
  | SubmitCard string string string string string string
  | ClickDelete string bool
  | ClickStudy string
  | ClickShowAnswer
  | ClickRating js_value string

definition fire :: "event \<Rightarrow> app \<Rightarrow> js_error + app" where
  "fire ev st =
     (case ev of
        Navigate v \<Rightarrow> switchView v st
      | SubmitDeck name description idNow createdNow \<Rightarrow>
          Inr (handleAddDeck name description idNow createdNow st)
      | SubmitCard deckId q a idNow createdNow reviewNow \<Rightarrow>
          Inr (handleAddCard deckId q a idNow createdNow reviewNow st)
      | ClickDelete deckId confirmed \<Rightarrow> Inr (deleteDeck deckId confirmed st)
      | ClickStudy deckId \<Rightarrow> startStudySession deckId st
      | ClickShowAnswer \<Rightarrow> Inr (showAnswer st)
      | ClickRating rating now \<Rightarrow> rateCard rating now st)"

fun run :: "event list \<Rightarrow> app \<Rightarrow> app" where
  "run [] st = st"
| "run (ev # evs) st = run evs (case fire ev st of Inl e \<Rightarrow> st | Inr st' \<Rightarrow> st')"

text \<open>Consecutive calls of \<open>rateCard\<close>, each with its rating and its clock reading.\<close>

fun rateAll :: "(js_value \<times> string) list \<Rightarrow> app \<Rightarrow> js_error + app" where
  "rateAll [] st = Inr st"
| "rateAll (r # rs) st =
     (case rateCard (fst r) (snd r) st of Inl e \<Rightarrow> Inl e | Inr st' \<Rightarrow> rateAll rs st')"

subsection \<open>The scheduling invariant\<close>

definition card_inv :: "card \<Rightarrow> bool" where
  "card_inv c = (easeFactor c \<ge> 1.3 \<and> interval c \<ge> 0)"

subsection \<open>Example states\<close>

definition blank_page :: study_dom where
  "blank_page =
     \<lparr>question_text = [], answer_text = [], current_deck_name = [],
      answer_container_display = [], show_answer_btn_display = [],
      rating_buttons_display = [], progress_text = (0, 0)\<rparr>"

definition deck1 :: deck where
  "deck1 = \<lparr>deck_id = ''d1'', deck_name = ''Anatomy'', deck_description = [],
            deck_createdAt = ''2024-01-01T00:00:00.000Z'', deck_cards = [0]\<rparr>"

definition new_card :: card where
  "new_card = newCard ''Q'' ''A'' ''1704067200000'' ''2024-01-01T00:00:00.000Z''
                 ''2024-01-01T00:00:00.000Z''"

definition mature_card :: card where
  "mature_card =
     \<lparr>card_id = ''7'', question = ''Q'', answer = ''A'',
      card_createdAt = ''2024-01-01T00:00:00.000Z'',
      nextReview = ''2024-03-01T00:00:00.000Z'',
      interval = 10, easeFactor = 2, repetitions = 3,
      lastReviewed = Some ''2024-02-20T00:00:00.000Z''\<rparr>"

text \<open>A page load that finds one deck with one card in storage, and a session on it.\<close>

definition stored_app :: "card \<Rightarrow> app" where
  "stored_app c = AksonApp (Some ([deck1], [c])) blank_page"

definition studying :: "card \<Rightarrow> app" where
  "studying c = run [ClickStudy ''d1''] (stored_app c)"

text \<open>A fresh page on which one deck has been created and no card added.\<close>

definition empty_deck_app :: app where
  "empty_deck_app =
     run [SubmitDeck ''Empty'' [] ''d0'' ''2024-01-01T00:00:00.000Z''] (AksonApp None blank_page)"

text \<open>
  What the session holds: the card objects its array refers to, as they now are, and
  the cursor. These are the cards \<open>nextCard\<close> shows and \<open>rateCard\<close> stamps.
\<close>

definition session_view :: "app \<Rightarrow> (card list \<times> nat) option" where
  "session_view st =
     (case currentStudySession st of
        None \<Rightarrow> None
      | Some s \<Rightarrow> Some (map (\<lambda>a. heap st ! a) (session_cards s), currentIndex s))"

text \<open>
  The handlers that edit the decks (\<open>handleAddDeck\<close>, \<open>handleAddCard\<close>,
  \<open>deleteDeck\<close>), and the one that starts a session.
\<close>

definition deck_edit :: "event \<Rightarrow> bool" where
  "deck_edit ev =
     (case ev of
        SubmitDeck name description idNow createdNow \<Rightarrow> True
      | SubmitCard deckId q a idNow createdNow reviewNow \<Rightarrow> True
      | ClickDelete deckId confirmed \<Rightarrow> True
      | _ \<Rightarrow> False)"

definition starts :: "event \<Rightarrow> bool" where
  "starts ev = (case ev of ClickStudy deckId \<Rightarrow> True | _ \<Rightarrow> False)"

text \<open>
  A user creates a deck and a card, studies the deck and rates the card "again", then
  studies the deck once more and rates the card "easy".
\<close>

definition example_events :: "event list" where
  "example_events =
     [SubmitDeck ''Anatomy'' [] ''d1'' ''2024-01-01T00:00:00.000Z'',
      SubmitCard ''d1'' '' Q'' ''A '' ''1704067200000'' ''2024-01-01T00:00:00.000Z''
        ''2024-01-01T00:00:00.000Z'',
      ClickStudy ''d1'', ClickShowAnswer,
      ClickRating (Num 1) ''2024-01-02T00:00:00.000Z'',
      ClickStudy ''d1'',
      ClickRating (Num 4) ''2024-01-03T00:00:00.000Z'']"

text \<open>
  During a session: a card is added to the studied deck, the deck is deleted, then the
  answer is shown and the card rated.
\<close>

definition edit_events :: "event list" where
  "edit_events =
     [SubmitCard ''d1'' ''Q2'' ''A2'' ''1704153600000'' ''2024-01-02T00:00:00.000Z''
        ''2024-01-02T00:00:00.000Z'',
      ClickDelete ''d1'' True,
      ClickShowAnswer,
      ClickRating (Num 3) ''2024-01-02T00:05:00.000Z'']"

section \<open>Properties\<close>

subsection \<open>Basic facts\<close>

lemma nextCard_idem: "nextCard (nextCard st) = nextCard st"
  by (auto simp: nextCard_def show_completed_def show_card_def split: option.splits)

lemma nextCard_frame:
  "heap (nextCard st) = heap st" "decks (nextCard st) = decks st"
  "currentStudySession (nextCard st) = currentStudySession st"
  "currentView (nextCard st) = currentView st"
  "currentDeckId (nextCard st) = currentDeckId st"
  "currentCardIndex (nextCard st) = currentCardIndex st"
  by (auto simp: nextCard_def split: option.splits)

lemma renderStudyView_started:
  assumes "currentStudySession st \<noteq> None"
  shows "renderStudyView st = Inr (st\<lparr>dom :=
     (if falsy (currentDeckId st) then show_no_deck (dom st)
      else let found = find (\<lambda>d. deck_id d = the (currentDeckId st)) (decks st) in
        if (case found of None \<Rightarrow> True | Some d \<Rightarrow> deck_cards d = [])
        then show_no_cards found (dom st) else dom (nextCard st))\<rparr>)"
  using assms
  by (auto simp: renderStudyView.simps Let_def nextCard_def split: option.splits)

lemma startStudySession_none:
  assumes "find (\<lambda>d. deck_id d = deckId) (decks st) = None"
  shows "startStudySession deckId st = Inr st"
  using assms by (simp add: startStudySession.simps)

lemma startStudySession_empty:
  assumes "find (\<lambda>d. deck_id d = deckId) (decks st) = Some d" "deck_cards d = []"
  shows "startStudySession deckId st = Inr st"
  using assms by (simp add: startStudySession.simps)

lemma startStudySession_found:
  assumes "find (\<lambda>d. deck_id d = deckId) (decks st) = Some d" "deck_cards d \<noteq> []"
  shows "startStudySession deckId st = Inr
     (st\<lparr>currentView := StudyView,
         currentDeckId := Some deckId,
         currentCardIndex := 0,
         currentStudySession :=
            Some \<lparr>session_deckId = deckId, session_cards = deck_cards d, currentIndex = 0\<rparr>,
         dom := show_card (heap st ! (deck_cards d ! 0)) 0 (length (deck_cards d))
                  ((dom st)\<lparr>current_deck_name :=
                      (if deckId = [] then ''Select a deck to start studying''
                       else deck_name d)\<rparr>)\<rparr>)"
  using assms
  by (simp add: startStudySession.simps switchView.simps renderStudyView_started
      falsy_def Let_def nextCard_def show_card_def show_no_deck_def)

lemma renderStudyView_unstarted:
  assumes "currentStudySession st = None"
  shows "renderStudyView st =
     (if falsy (currentDeckId st) then Inr (st\<lparr>dom := show_no_deck (dom st)\<rparr>)
      else let found = find (\<lambda>d. deck_id d = the (currentDeckId st)) (decks st) in
        if (case found of None \<Rightarrow> True | Some d \<Rightarrow> deck_cards d = [])
        then Inr (st\<lparr>dom := show_no_cards found (dom st)\<rparr>)
        else (case startStudySession (the (currentDeckId st)) st of
                Inl e \<Rightarrow> Inl e | Inr st' \<Rightarrow> Inr (nextCard st')))"
  using assms by (simp add: renderStudyView.simps)

lemma startStudySession_heap:
  "\<exists>st'. startStudySession deckId st = Inr st' \<and> heap st' = heap st \<and> decks st' = decks st"
proof (cases "find (\<lambda>d. deck_id d = deckId) (decks st)")
  case None
  then show ?thesis by (simp add: startStudySession_none)
next
  case (Some d)
  show ?thesis
  proof (cases "deck_cards d = []")
    case True
    with Some show ?thesis by (simp add: startStudySession_empty)
  next
    case False
    with Some show ?thesis by (simp add: startStudySession_found)
  qed
qed

lemma renderStudyView_heap:
  "\<exists>st'. renderStudyView st = Inr st' \<and> heap st' = heap st \<and> decks st' = decks st"
proof (cases "currentStudySession st = None")
  case True
  obtain st1 where s: "startStudySession (the (currentDeckId st)) st = Inr st1"
     "heap st1 = heap st" "decks st1 = decks st"
    using startStudySession_heap by blast
  show ?thesis
    using True s by (simp add: renderStudyView_unstarted Let_def nextCard_frame)
next
  case False
  then show ?thesis by (simp add: renderStudyView_started)
qed

lemma switchView_heap:
  "\<exists>st'. switchView v st = Inr st' \<and> heap st' = heap st \<and> decks st' = decks st"
proof (cases v)
  case StudyView
  obtain st1 where "renderStudyView (st\<lparr>currentView := StudyView\<rparr>) = Inr st1"
     "heap st1 = heap st" "decks st1 = decks st"
    using renderStudyView_heap [of "st\<lparr>currentView := StudyView\<rparr>"] by auto
  with StudyView show ?thesis by (simp add: switchView.simps)
qed (simp_all add: switchView.simps)

lemma setLastReviewed_pres:
  assumes "\<And>c t. P c \<Longrightarrow> P (c\<lparr>lastReviewed := Some t\<rparr>)" and "\<forall>c\<in>set h. P c"
  shows "\<forall>c\<in>set (setLastReviewed a t h). P c"
proof (cases "a < length h")
  case True
  then have "P (h ! a)" using assms(2) by simp
  then have "P ((h ! a)\<lparr>lastReviewed := Some t\<rparr>)" by (rule assms(1))
  then show ?thesis
    using assms(2) set_update_subset_insert [of h a "(h ! a)\<lparr>lastReviewed := Some t\<rparr>"]
    by (auto simp: setLastReviewed_def)
next
  case False
  then show ?thesis using assms(2) by (simp add: setLastReviewed_def list_update_beyond)
qed

lemma fire_pres:
  assumes stamp: "\<And>c t. P c \<Longrightarrow> P (c\<lparr>lastReviewed := Some t\<rparr>)"
    and new: "\<And>q a i c r. P (newCard q a i c r)"
    and inv: "\<forall>c\<in>set (heap st). P c"
    and ev: "fire ev st = Inr st'"
  shows "\<forall>c\<in>set (heap st'). P c"
proof (cases ev)
  case (Navigate v)
  then show ?thesis using inv ev switchView_heap [of v st] by (auto simp: fire_def)
next
  case (SubmitDeck n d i c)
  then show ?thesis using inv ev by (auto simp: fire_def handleAddDeck_def split: if_splits)
next
  case (SubmitCard d q a i c r)
  then show ?thesis using inv ev new
    by (auto simp: fire_def handleAddCard_def split: option.splits if_splits)
next
  case (ClickDelete d b)
  then show ?thesis using inv ev by (auto simp: fire_def deleteDeck_def split: if_splits)
next
  case (ClickStudy d)
  then show ?thesis using inv ev startStudySession_heap [of d st] by (auto simp: fire_def)
next
  case ClickShowAnswer
  then show ?thesis using inv ev by (auto simp: fire_def showAnswer_def)
next
  case (ClickRating r t)
  show ?thesis
  proof (cases "currentStudySession st")
    case None
    then show ?thesis using inv ev ClickRating by (simp add: fire_def rateCard_def)
  next
    case (Some s)
    then have "heap st' = setLastReviewed (session_cards s ! currentIndex s) t (heap st)"
      using ev ClickRating
      by (auto simp: fire_def rateCard_def nextCard_frame split: if_splits)
    then show ?thesis using setLastReviewed_pres [of P, OF stamp inv] by simp
  qed
qed

lemma run_pres:
  assumes stamp: "\<And>c t. P c \<Longrightarrow> P (c\<lparr>lastReviewed := Some t\<rparr>)"
    and new: "\<And>q a i c r. P (newCard q a i c r)"
  shows "\<forall>c\<in>set (heap st). P c \<Longrightarrow> \<forall>c\<in>set (heap (run evs st)). P c"
proof (induction evs arbitrary: st)
  case Nil
  then show ?case by simp
next
  case (Cons ev evs)
  show ?case
  proof (cases "fire ev st")
    case (Inl e)
    then show ?thesis using Cons by simp
  next
    case (Inr st')
    have "\<forall>c\<in>set (heap st'). P c"
      by (rule fire_pres [of P, OF stamp new Cons.prems Inr])
    then show ?thesis using Cons.IH Inr by simp
  qed
qed

lemma handleAddCard_heap:
  "heap (handleAddCard k q a i c r st) = heap st \<or>
   heap (handleAddCard k q a i c r st) = heap st @ [newCard q a i c r]"
  by (simp add: handleAddCard_def split: option.splits)


lemma startStudySession_eq:
  "startStudySession deckId st =
     (case find (\<lambda>d. deck_id d = deckId) (decks st) of
        None \<Rightarrow> Inr st
      | Some d \<Rightarrow>
          if deck_cards d = [] then Inr st
          else Inr (st\<lparr>currentView := StudyView,
                      currentDeckId := Some deckId,
                      currentCardIndex := 0,
                      currentStudySession :=
                        Some \<lparr>session_deckId = deckId, session_cards = deck_cards d,
                              currentIndex = 0\<rparr>,
                      dom := show_card (heap st ! (deck_cards d ! 0)) 0 (length (deck_cards d))
                        ((dom st)\<lparr>current_deck_name :=
                            (if deckId = [] then ''Select a deck to start studying''
                             else deck_name d)\<rparr>)\<rparr>))"
  by (simp add: startStudySession_none startStudySession_empty startStudySession_found
      split: option.splits)


lemma update_first_length [simp]: "length (update_first p f xs) = length xs"
  by (induction xs) auto

lemma trim_examples [simp]:
  "trim [] = []" "trim ''Anatomy'' = ''Anatomy''" "trim '' Q'' = ''Q''" "trim ''A '' = ''A''"
  "trim ''Q2'' = ''Q2''" "trim ''A2'' = ''A2''" "trim ''Empty'' = ''Empty''"
  by (simp_all add: trim_def white_space_def strip.simps)

lemma empty_deck_app_eq:
  "empty_deck_app =
     \<lparr>currentView = DashboardView,
      decks = [\<lparr>deck_id = ''d0'', deck_name = ''Empty'', deck_description = [],
                deck_createdAt = ''2024-01-01T00:00:00.000Z'', deck_cards = []\<rparr>],
      heap = [], currentStudySession = None, currentCardIndex = 0, currentDeckId = None,
      dom = blank_page\<rparr>"
  by (simp add: empty_deck_app_def fire_def handleAddDeck_def AksonApp_def)

lemma example_run:
  "heap (run example_events (AksonApp None blank_page)) =
     [(newCard '' Q'' ''A '' ''1704067200000'' ''2024-01-01T00:00:00.000Z''
         ''2024-01-01T00:00:00.000Z'')\<lparr>lastReviewed := Some ''2024-01-03T00:00:00.000Z''\<rparr>]"
  by (simp add: example_events_def fire_def AksonApp_def handleAddDeck_def handleAddCard_def
      startStudySession_eq showAnswer_def rateCard_def nextCard_def setLastReviewed_def)


lemma studying_eq:
  "studying c =
     \<lparr>currentView = StudyView, decks = [deck1], heap = [c],
      currentStudySession =
        Some \<lparr>session_deckId = ''d1'', session_cards = [0], currentIndex = 0\<rparr>,
      currentCardIndex = 0, currentDeckId = Some ''d1'',
      dom = \<lparr>question_text = question c, answer_text = answer c,
             current_deck_name = ''Anatomy'',
             answer_container_display = ''none'', show_answer_btn_display = ''block'',
             rating_buttons_display = ''none'', progress_text = (0, 1)\<rparr>\<rparr>"
proof -
  have f: "find (\<lambda>d. deck_id d = ''d1'') (decks (stored_app c)) = Some deck1"
    by (simp add: stored_app_def AksonApp_def deck1_def)
  have n: "deck_cards deck1 \<noteq> []" by (simp add: deck1_def)
  show ?thesis
    unfolding studying_def
    by (simp add: fire_def startStudySession_found [OF f n])
       (simp add: stored_app_def AksonApp_def deck1_def show_card_def blank_page_def)
qed

lemma rateCard_active:
  assumes "currentStudySession st = Some s" "currentIndex s < length (session_cards s)"
  shows "rateCard rating now st = Inr (nextCard
           (st\<lparr>heap := setLastReviewed (session_cards s ! currentIndex s) now (heap st),
               currentStudySession := Some (s\<lparr>currentIndex := currentIndex s + 1\<rparr>)\<rparr>))"
  using assms by (simp add: rateCard_def)

lemma rateCard_exhausted:
  assumes "currentStudySession st = Some s" "length (session_cards s) \<le> currentIndex s"
  shows "rateCard rating now st = Inl TypeError"
  using assms by (simp add: rateCard_def)

lemma nextCard_dom_only: "(nextCard st)\<lparr>dom := d\<rparr> = st\<lparr>dom := d\<rparr>"
  by (simp add: nextCard_def split: option.splits)

subsection \<open>Rating without a session\<close>

text \<open>
  Claim C10. When no study session is active (\<open>currentStudySession\<close> is \<open>null\<close>),
  \<open>rateCard\<close> returns normally, raises nothing and leaves every part of the state
  (cards, session, page) as it was.
\<close>

theorem rateCard_without_session:
  assumes "currentStudySession st = None"
  shows "rateCard rating now st = Inr st"
  using assms by (simp add: rateCard_def)

theorem rateCard_without_session_witness:
  "currentStudySession (AksonApp None blank_page) = None \<and>
   rateCard (Str ''3'') ''2024-01-02T00:00:00.000Z'' (AksonApp None blank_page)
     = Inr (AksonApp None blank_page)"
proof -
  have h: "currentStudySession (AksonApp None blank_page) = None"
    by (simp add: AksonApp_def)
  show ?thesis using h rateCard_without_session [OF h] by simp
qed

subsection \<open>What a rating changes\<close>

text \<open>
  Claim C3. With a session whose cursor is on a card, \<open>rateCard\<close> returns normally for
  every rating value; of the application data it changes the \<open>lastReviewed\<close> field of
  that card (set to the clock reading) and the session cursor (one more), and nothing
  else: the card's \<open>interval\<close>, \<open>easeFactor\<close>, \<open>repetitions\<close> and \<open>nextReview\<close> are as
  before, every other card is untouched, and apart from the study view, which
  \<open>nextCard\<close> redraws, the state is the old one with these two writes.
\<close>

theorem rateCard_frame:
  assumes "currentStudySession st = Some s"
    and "currentIndex s < length (session_cards s)"
    and "a = session_cards s ! currentIndex s"
    and "a < length (heap st)"
  shows "\<exists>st'. rateCard rating now st = Inr st' \<and>
      st'\<lparr>dom := dom st\<rparr> =
        st\<lparr>heap := (heap st)[a := (heap st ! a)\<lparr>lastReviewed := Some now\<rparr>],
           currentStudySession := Some (s\<lparr>currentIndex := currentIndex s + 1\<rparr>)\<rparr> \<and>
      heap st' ! a = (heap st ! a)\<lparr>lastReviewed := Some now\<rparr> \<and>
      interval (heap st' ! a) = interval (heap st ! a) \<and>
      easeFactor (heap st' ! a) = easeFactor (heap st ! a) \<and>
      repetitions (heap st' ! a) = repetitions (heap st ! a) \<and>
      nextReview (heap st' ! a) = nextReview (heap st ! a) \<and>
      (\<forall>b. b \<noteq> a \<longrightarrow> heap st' ! b = heap st ! b)"
proof -
  let ?st1 = "st\<lparr>heap := setLastReviewed a now (heap st),
                 currentStudySession := Some (s\<lparr>currentIndex := currentIndex s + 1\<rparr>)\<rparr>"
  have r: "rateCard rating now st = Inr (nextCard ?st1)"
    using assms(1,2,3) by (simp add: rateCard_active)
  have h: "heap (nextCard ?st1) = (heap st)[a := (heap st ! a)\<lparr>lastReviewed := Some now\<rparr>]"
    by (simp add: nextCard_frame setLastReviewed_def)
  have d: "(nextCard ?st1)\<lparr>dom := dom st\<rparr> =
        st\<lparr>heap := (heap st)[a := (heap st ! a)\<lparr>lastReviewed := Some now\<rparr>],
           currentStudySession := Some (s\<lparr>currentIndex := currentIndex s + 1\<rparr>)\<rparr>"
    by (simp add: nextCard_dom_only setLastReviewed_def)
  show ?thesis
    using r h d assms(4) by simp
qed

theorem rateCard_frame_witness:
  "currentStudySession (studying mature_card) =
      Some \<lparr>session_deckId = ''d1'', session_cards = [0], currentIndex = 0\<rparr> \<and>
   (\<exists>st'. rateCard (Num 4) ''2024-03-01T09:00:00.000Z'' (studying mature_card) = Inr st' \<and>
      heap st' = [mature_card\<lparr>lastReviewed := Some ''2024-03-01T09:00:00.000Z''\<rparr>] \<and>
      currentStudySession st' =
        Some \<lparr>session_deckId = ''d1'', session_cards = [0], currentIndex = 1\<rparr>)"
proof -
  let ?s = "\<lparr>session_deckId = ''d1'', session_cards = [0], currentIndex = 0\<rparr>"
  have 1: "currentStudySession (studying mature_card) = Some ?s"
    by (simp add: studying_eq)
  have 2: "currentIndex ?s < length (session_cards ?s)" by simp
  have 3: "0 = session_cards ?s ! currentIndex ?s" by simp
  have 4: "0 < length (heap (studying mature_card))" by (simp add: studying_eq)
  obtain st' where
    r: "rateCard (Num 4) ''2024-03-01T09:00:00.000Z'' (studying mature_card) = Inr st'"
    and e: "st'\<lparr>dom := dom (studying mature_card)\<rparr> =
        (studying mature_card)\<lparr>heap := (heap (studying mature_card))
             [0 := (heap (studying mature_card) ! 0)
                     \<lparr>lastReviewed := Some ''2024-03-01T09:00:00.000Z''\<rparr>],
           currentStudySession := Some (?s\<lparr>currentIndex := currentIndex ?s + 1\<rparr>)\<rparr>"
    using rateCard_frame [OF 1 2 3 4, of "Num 4" "''2024-03-01T09:00:00.000Z''"] by blast
  from e have "heap (st'\<lparr>dom := dom (studying mature_card)\<rparr>) =
       [mature_card\<lparr>lastReviewed := Some ''2024-03-01T09:00:00.000Z''\<rparr>]"
     and "currentStudySession (st'\<lparr>dom := dom (studying mature_card)\<rparr>) =
        Some \<lparr>session_deckId = ''d1'', session_cards = [0], currentIndex = 1\<rparr>"
    by (simp_all add: studying_eq)
  then show ?thesis using 1 r by simp
qed

lemma rateCard_card_fields:
  assumes "currentStudySession st = Some s"
    and "currentIndex s < length (session_cards s)"
    and "session_cards s ! currentIndex s < length (heap st)"
  shows "\<exists>st'. rateCard rating now st = Inr st' \<and>
      currentStudySession st' = Some (s\<lparr>currentIndex := currentIndex s + 1\<rparr>) \<and>
      heap st' ! (session_cards s ! currentIndex s) =
        (heap st ! (session_cards s ! currentIndex s))\<lparr>lastReviewed := Some now\<rparr>"
  using assms
  by (simp add: rateCard_active nextCard_frame setLastReviewed_def)

subsection \<open>The rating value has no effect on scheduling\<close>

text \<open>
  The card \<open>{interval: 0, easeFactor: 2.5, repetitions: 0}\<close> rated 3 ("good"): the call
  returns normally, and the card's \<open>repetitions\<close> and \<open>interval\<close> are not 1 afterwards.
\<close>

theorem rateCard_good_counterexample:
  "\<not> isl (rateCard (Num 3) ''2024-01-02T00:00:00.000Z'' (studying new_card)) \<and>
   interval (heap (studying new_card) ! 0) = 0 \<and>
   easeFactor (heap (studying new_card) ! 0) = 2.5 \<and>
   repetitions (heap (studying new_card) ! 0) = 0 \<and>
   repetitions (heap (projr (rateCard (Num 3) ''2024-01-02T00:00:00.000Z''
       (studying new_card))) ! 0) \<noteq> 1 \<and>
   interval (heap (projr (rateCard (Num 3) ''2024-01-02T00:00:00.000Z''
       (studying new_card))) ! 0) \<noteq> 1"
  by (simp add: studying_eq rateCard_def nextCard_def setLastReviewed_def new_card_def
      newCard_def)

text \<open>
  Claim C1, as the code has it. Rating the card under the cursor "good" (the number 3, or
  the string a \<open>data-rating\<close> attribute would carry) leaves \<open>repetitions\<close>,
  \<open>easeFactor\<close>, \<open>interval\<close> and \<open>nextReview\<close> as they were, sets \<open>lastReviewed\<close> to the
  clock reading and moves the cursor on by one.
\<close>

theorem rateCard_good:
  assumes "rating \<in> {Num 3, Str ''3'', Str ''good''}"
    and "currentStudySession st = Some s"
    and "currentIndex s < length (session_cards s)"
    and "a = session_cards s ! currentIndex s"
    and "a < length (heap st)"
  shows "\<exists>st'. rateCard rating now st = Inr st' \<and>
      repetitions (heap st' ! a) = repetitions (heap st ! a) \<and>
      easeFactor (heap st' ! a) = easeFactor (heap st ! a) \<and>
      interval (heap st' ! a) = interval (heap st ! a) \<and>
      nextReview (heap st' ! a) = nextReview (heap st ! a) \<and>
      lastReviewed (heap st' ! a) = Some now \<and>
      currentStudySession st' = Some (s\<lparr>currentIndex := currentIndex s + 1\<rparr>)"
proof -
  obtain st' where "rateCard rating now st = Inr st'"
    and "currentStudySession st' = Some (s\<lparr>currentIndex := currentIndex s + 1\<rparr>)"
    and "heap st' ! a = (heap st ! a)\<lparr>lastReviewed := Some now\<rparr>"
    using rateCard_card_fields [of st s rating now] assms(2-5) by auto
  then show ?thesis by simp
qed

theorem rateCard_good_witness:
  "Num 3 \<in> {Num 3, Str ''3'', Str ''good''} \<and>
   (\<exists>st'. rateCard (Num 3) ''2024-01-02T00:00:00.000Z'' (studying new_card) = Inr st' \<and>
      repetitions (heap st' ! 0) = 0 \<and> easeFactor (heap st' ! 0) = 2.5 \<and>
      interval (heap st' ! 0) = 0 \<and>
      nextReview (heap st' ! 0) = ''2024-01-01T00:00:00.000Z'' \<and>
      lastReviewed (heap st' ! 0) = Some ''2024-01-02T00:00:00.000Z'')"
proof -
  let ?s = "\<lparr>session_deckId = ''d1'', session_cards = [0], currentIndex = 0\<rparr>"
  have 0: "Num 3 \<in> {Num 3, Str ''3'', Str ''good''}" by simp
  have 1: "currentStudySession (studying new_card) = Some ?s" by (simp add: studying_eq)
  have 2: "currentIndex ?s < length (session_cards ?s)" by simp
  have 3: "0 = session_cards ?s ! currentIndex ?s" by simp
  have 4: "0 < length (heap (studying new_card))" by (simp add: studying_eq)
  have 5: "heap (studying new_card) ! 0 = new_card" by (simp add: studying_eq)
  show ?thesis
    using 0 rateCard_good [OF 0 1 2 3 4, of "''2024-01-02T00:00:00.000Z''", unfolded 5]
    by (auto simp add: new_card_def newCard_def)
qed

text \<open>
  The card \<open>{interval: 10, easeFactor: 2.0, repetitions: 3}\<close> rated 1 ("again"):
  \<open>repetitions\<close> stays 3, \<open>interval\<close> stays 10, \<open>easeFactor\<close> stays 2.0 and
  \<open>nextReview\<close> is not the review instant.
\<close>

theorem rateCard_again_counterexample:
  "\<not> isl (rateCard (Num 1) ''2024-03-01T09:00:00.000Z'' (studying mature_card)) \<and>
   repetitions (heap (projr (rateCard (Num 1) ''2024-03-01T09:00:00.000Z''
       (studying mature_card))) ! 0) = 3 \<and>
   interval (heap (projr (rateCard (Num 1) ''2024-03-01T09:00:00.000Z''
       (studying mature_card))) ! 0) = 10 \<and>
   easeFactor (heap (projr (rateCard (Num 1) ''2024-03-01T09:00:00.000Z''
       (studying mature_card))) ! 0) = 2 \<and>
   nextReview (heap (projr (rateCard (Num 1) ''2024-03-01T09:00:00.000Z''
       (studying mature_card))) ! 0) \<noteq> ''2024-03-01T09:00:00.000Z''"
  by (simp add: studying_eq rateCard_def nextCard_def setLastReviewed_def mature_card_def)

text \<open>
  Claim C2, as the code has it. Rating the card under the cursor "again" (the number 1, or
  the string a \<open>data-rating\<close> attribute would carry) changes the card in its
  \<open>lastReviewed\<close> field only: \<open>repetitions\<close>, \<open>interval\<close>, \<open>easeFactor\<close> and
  \<open>nextReview\<close> are as they were, whatever they were.
\<close>

theorem rateCard_again:
  assumes "rating \<in> {Num 1, Str ''1'', Str ''again''}"
    and "currentStudySession st = Some s"
    and "currentIndex s < length (session_cards s)"
    and "a = session_cards s ! currentIndex s"
    and "a < length (heap st)"
  shows "\<exists>st'. rateCard rating now st = Inr st' \<and>
      heap st' ! a = (heap st ! a)\<lparr>lastReviewed := Some now\<rparr> \<and>
      repetitions (heap st' ! a) = repetitions (heap st ! a) \<and>
      interval (heap st' ! a) = interval (heap st ! a) \<and>
      easeFactor (heap st' ! a) = easeFactor (heap st ! a) \<and>
      nextReview (heap st' ! a) = nextReview (heap st ! a)"
proof -
  from assms(2-5) show ?thesis
    using rateCard_card_fields [of st s rating now] by auto
qed

theorem rateCard_again_witness:
  "Str ''again'' \<in> {Num 1, Str ''1'', Str ''again''} \<and>
   (\<exists>st'. rateCard (Str ''again'') ''2024-03-01T09:00:00.000Z'' (studying mature_card)
        = Inr st' \<and>
      heap st' ! 0 = mature_card\<lparr>lastReviewed := Some ''2024-03-01T09:00:00.000Z''\<rparr> \<and>
      repetitions (heap st' ! 0) = 3 \<and> interval (heap st' ! 0) = 10 \<and>
      easeFactor (heap st' ! 0) = 2 \<and>
      nextReview (heap st' ! 0) = ''2024-03-01T00:00:00.000Z'')"
proof -
  let ?s = "\<lparr>session_deckId = ''d1'', session_cards = [0], currentIndex = 0\<rparr>"
  have 0: "Str ''again'' \<in> {Num 1, Str ''1'', Str ''again''}" by simp
  have 1: "currentStudySession (studying mature_card) = Some ?s" by (simp add: studying_eq)
  have 2: "currentIndex ?s < length (session_cards ?s)" by simp
  have 3: "0 = session_cards ?s ! currentIndex ?s" by simp
  have 4: "0 < length (heap (studying mature_card))" by (simp add: studying_eq)
  have 5: "heap (studying mature_card) ! 0 = mature_card" by (simp add: studying_eq)
  show ?thesis
    using 0 rateCard_again [OF 0 1 2 3 4, of "''2024-03-01T09:00:00.000Z''", unfolded 5]
    by (simp add: mature_card_def)
qed

text \<open>
  The rating 7 and the rating \<open>undefined\<close> are accepted: the call returns normally, the
  card is stamped and the cursor moves on.
\<close>

theorem rateCard_invalid_rating_counterexample:
  "\<not> isl (rateCard (Num 7) ''2024-01-02T00:00:00.000Z'' (studying new_card)) \<and>
   \<not> isl (rateCard Undefined ''2024-01-02T00:00:00.000Z'' (studying new_card)) \<and>
   currentStudySession (projr (rateCard (Num 7) ''2024-01-02T00:00:00.000Z''
       (studying new_card))) =
     Some \<lparr>session_deckId = ''d1'', session_cards = [0], currentIndex = 1\<rparr> \<and>
   lastReviewed (heap (projr (rateCard (Num 7) ''2024-01-02T00:00:00.000Z''
       (studying new_card))) ! 0) = Some ''2024-01-02T00:00:00.000Z''"
  by (simp add: studying_eq rateCard_def nextCard_def setLastReviewed_def)

text \<open>
  Claim C8, as the code has it. \<open>rateCard\<close> never looks at its argument: any two rating
  values, inside or outside \<open>{1, 2, 3, 4}\<close>, give the same outcome from the same state
  and clock reading. The call fails only when a session exists whose cursor is past its
  last card, and then for every rating value alike.
\<close>

theorem rateCard_ignores_rating:
  "rateCard rating now st = rateCard rating' now st \<and>
   (isl (rateCard rating now st) \<longleftrightarrow>
      (\<exists>s. currentStudySession st = Some s \<and> length (session_cards s) \<le> currentIndex s))"
  by (auto simp: rateCard_def split: option.splits)

subsection \<open>Rating before the answer is shown\<close>




subsection \<open>Starting a session\<close>

text \<open>
  A deck exists and has no card: \<open>startStudySession\<close> on it returns normally, with the
  state it was given.
\<close>

theorem startStudySession_empty_deck_counterexample:
  "find (\<lambda>d. deck_id d = ''d0'') (decks empty_deck_app) \<noteq> None \<and>
   deck_cards (the (find (\<lambda>d. deck_id d = ''d0'') (decks empty_deck_app))) = [] \<and>
   \<not> isl (startStudySession ''d0'' empty_deck_app) \<and>
   startStudySession ''d0'' empty_deck_app = Inr empty_deck_app"
  by (simp add: empty_deck_app_eq startStudySession.simps)

text \<open>
  Claim C5, as the code has it. On a deck that has no card, and on an identifier that no
  deck has, \<open>startStudySession\<close> raises nothing: it returns normally and changes
  nothing, so no session is created. On a deck with at least one card it creates the
  session over the deck's cards with the cursor at 0 and shows the first question: the
  show-answer button is displayed, the answer and the rating buttons are hidden, the
  progress reads \<open>0/N\<close>.
\<close>

theorem startStudySession_outcome:
  "((find (\<lambda>d. deck_id d = deckId) (decks st) = None \<or>
     (\<exists>d. find (\<lambda>d. deck_id d = deckId) (decks st) = Some d \<and> deck_cards d = [])) \<longrightarrow>
      startStudySession deckId st = Inr st) \<and>
   (\<forall>d. find (\<lambda>d. deck_id d = deckId) (decks st) = Some d \<and> deck_cards d \<noteq> [] \<longrightarrow>
      (\<exists>st'. startStudySession deckId st = Inr st' \<and>
        currentStudySession st' =
          Some \<lparr>session_deckId = deckId, session_cards = deck_cards d, currentIndex = 0\<rparr> \<and>
        currentDeckId st' = Some deckId \<and> currentCardIndex st' = 0 \<and>
        currentView st' = StudyView \<and>
        question_text (dom st') = question (heap st ! (deck_cards d ! 0)) \<and>
        answer_container_display (dom st') = ''none'' \<and>
        show_answer_btn_display (dom st') = ''block'' \<and>
        rating_buttons_display (dom st') = ''none'' \<and>
        progress_text (dom st') = (0, length (deck_cards d)) \<and>
        heap st' = heap st \<and> decks st' = decks st))"
  by (auto simp: startStudySession_eq show_card_def)

theorem startStudySession_outcome_witness:
  "(\<exists>d. find (\<lambda>d. deck_id d = ''d0'') (decks empty_deck_app) = Some d \<and> deck_cards d = []) \<and>
   startStudySession ''d0'' empty_deck_app = Inr empty_deck_app \<and>
   find (\<lambda>d. deck_id d = ''d1'') (decks (stored_app new_card)) = Some deck1 \<and>
   deck_cards deck1 \<noteq> [] \<and>
   (\<exists>st'. startStudySession ''d1'' (stored_app new_card) = Inr st' \<and>
      currentStudySession st' =
        Some \<lparr>session_deckId = ''d1'', session_cards = [0], currentIndex = 0\<rparr> \<and>
      show_answer_btn_display (dom st') = ''block'' \<and>
      rating_buttons_display (dom st') = ''none'' \<and>
      progress_text (dom st') = (0, 1))"
proof -
  have e: "\<exists>d. find (\<lambda>d. deck_id d = ''d0'') (decks empty_deck_app) = Some d \<and>
      deck_cards d = []"
    by (simp add: empty_deck_app_eq)
  have f: "find (\<lambda>d. deck_id d = ''d1'') (decks (stored_app new_card)) = Some deck1"
    by (simp add: stored_app_def AksonApp_def deck1_def)
  have n: "deck_cards deck1 \<noteq> []" and c: "deck_cards deck1 = [0]"
    by (simp_all add: deck1_def)
  have 1: "startStudySession ''d0'' empty_deck_app = Inr empty_deck_app"
    using e startStudySession_outcome [of "''d0''" empty_deck_app] by blast
  have 2: "\<exists>st'. startStudySession ''d1'' (stored_app new_card) = Inr st' \<and>
      currentStudySession st' =
        Some \<lparr>session_deckId = ''d1'', session_cards = deck_cards deck1, currentIndex = 0\<rparr> \<and>
      show_answer_btn_display (dom st') = ''block'' \<and>
      rating_buttons_display (dom st') = ''none'' \<and>
      progress_text (dom st') = (0, length (deck_cards deck1))"
    using f n startStudySession_outcome [of "''d1''" "stored_app new_card"] by blast
  show ?thesis
    using e f n 1 2 by (simp add: c)
qed

subsection \<open>Progress through a session\<close>

lemma rateCard_progress:
  assumes "currentStudySession st = Some s"
    and "currentIndex s < length (session_cards s)"
    and "progress_text (dom st) = (currentIndex s, length (session_cards s))"
  shows "\<exists>st'. rateCard rating now st = Inr st' \<and>
      currentStudySession st' = Some (s\<lparr>currentIndex := Suc (currentIndex s)\<rparr>) \<and>
      progress_text (dom st') =
        (if Suc (currentIndex s) < length (session_cards s) then Suc (currentIndex s)
         else currentIndex s, length (session_cards s)) \<and>
      (length (session_cards s) \<le> Suc (currentIndex s) \<longrightarrow>
         question_text (dom st') = ''Study session completed!'')"
  using assms
  by (simp add: rateCard_active nextCard_def show_card_def show_completed_def)

lemma rateAll_progress:
  assumes "currentStudySession st = Some s"
    and "currentIndex s + length rs \<le> length (session_cards s)"
    and "currentIndex s < length (session_cards s)"
    and "progress_text (dom st) = (currentIndex s, length (session_cards s))"
  shows "\<exists>st'. rateAll rs st = Inr st' \<and>
      currentStudySession st' = Some (s\<lparr>currentIndex := currentIndex s + length rs\<rparr>) \<and>
      progress_text (dom st') =
        (min (currentIndex s + length rs) (length (session_cards s) - 1),
         length (session_cards s)) \<and>
      (currentIndex s + length rs = length (session_cards s) \<longrightarrow>
         question_text (dom st') = ''Study session completed!'')"
  using assms
proof (induction rs arbitrary: st s)
  case Nil
  then show ?case by simp
next
  case (Cons r rs)
  let ?s1 = "s\<lparr>currentIndex := Suc (currentIndex s)\<rparr>"
  obtain st1 where r: "rateCard (fst r) (snd r) st = Inr st1"
    and s1: "currentStudySession st1 = Some ?s1"
    and p1: "progress_text (dom st1) =
        (if Suc (currentIndex s) < length (session_cards s) then Suc (currentIndex s)
         else currentIndex s, length (session_cards s))"
    and q1: "length (session_cards s) \<le> Suc (currentIndex s) \<longrightarrow>
         question_text (dom st1) = ''Study session completed!''"
    using rateCard_progress [OF Cons.prems(1) Cons.prems(3) Cons.prems(4)] by blast
  show ?case
  proof (cases "Suc (currentIndex s) < length (session_cards s)")
    case True
    have "\<exists>st'. rateAll rs st1 = Inr st' \<and>
      currentStudySession st' = Some (?s1\<lparr>currentIndex := currentIndex ?s1 + length rs\<rparr>) \<and>
      progress_text (dom st') =
        (min (currentIndex ?s1 + length rs) (length (session_cards ?s1) - 1),
         length (session_cards ?s1)) \<and>
      (currentIndex ?s1 + length rs = length (session_cards ?s1) \<longrightarrow>
         question_text (dom st') = ''Study session completed!'')"
      using Cons.prems(2) True p1
      by (intro Cons.IH [OF s1]) simp_all
    then show ?thesis using r by simp
  next
    case False
    then have "rs = []" using Cons.prems(2) by (cases rs) auto
    moreover have "min (Suc (currentIndex s)) (length (session_cards s) - 1) = currentIndex s"
      using False Cons.prems(3) by linarith
    moreover have "Suc (currentIndex s) = length (session_cards s)"
      using False Cons.prems(3) by linarith
    ultimately show ?thesis using r s1 p1 q1 by simp
  qed
qed

text \<open>
  Claim C6, evaluated on the code. A session started on a deck of \<open>N\<close> cards accepts
  \<open>k \<le> N\<close> ratings in a row; after them the cursor is \<open>k\<close>, and after the \<open>N\<close>-th the
  page reads "Study session completed!". The progress written to the page starts at
  \<open>0/N\<close> and is \<open>k/N\<close> after the \<open>k\<close>-th rating as long as \<open>k < N\<close>; after the \<open>N\<close>-th
  rating it is still \<open>(N-1)/N\<close>, because \<open>nextCard\<close> returns before the lines that
  write the progress. So the last report is not \<open>(N, N)\<close>.
\<close>

theorem progress_after_ratings:
  assumes "find (\<lambda>d. deck_id d = deckId) (decks st) = Some d"
    and "deck_cards d \<noteq> []"
    and "length rs \<le> length (deck_cards d)"
  shows "\<exists>st0 st'. startStudySession deckId st = Inr st0 \<and> rateAll rs st0 = Inr st' \<and>
      progress_text (dom st0) = (0, length (deck_cards d)) \<and>
      currentStudySession st' =
        Some \<lparr>session_deckId = deckId, session_cards = deck_cards d,
              currentIndex = length rs\<rparr> \<and>
      progress_text (dom st') =
        (min (length rs) (length (deck_cards d) - 1), length (deck_cards d)) \<and>
      (length rs = length (deck_cards d) \<longrightarrow>
         question_text (dom st') = ''Study session completed!'' \<and>
         progress_text (dom st') \<noteq> (length rs, length (deck_cards d)))"
proof -
  let ?s = "\<lparr>session_deckId = deckId, session_cards = deck_cards d, currentIndex = 0\<rparr>"
  obtain st0 where s0: "startStudySession deckId st = Inr st0"
    and c0: "currentStudySession st0 = Some ?s"
    and p0: "progress_text (dom st0) = (0, length (deck_cards d))"
    using assms(1,2) by (simp add: startStudySession_found show_card_def)
  have "\<exists>st'. rateAll rs st0 = Inr st' \<and>
      currentStudySession st' = Some (?s\<lparr>currentIndex := currentIndex ?s + length rs\<rparr>) \<and>
      progress_text (dom st') =
        (min (currentIndex ?s + length rs) (length (session_cards ?s) - 1),
         length (session_cards ?s)) \<and>
      (currentIndex ?s + length rs = length (session_cards ?s) \<longrightarrow>
         question_text (dom st') = ''Study session completed!'')"
    using assms(2,3) p0 by (intro rateAll_progress [OF c0]) simp_all
  then obtain st' where "rateAll rs st0 = Inr st'"
    "currentStudySession st' = Some (?s\<lparr>currentIndex := length rs\<rparr>)"
    "progress_text (dom st') =
        (min (length rs) (length (deck_cards d) - 1), length (deck_cards d))"
    "length rs = length (deck_cards d) \<longrightarrow>
         question_text (dom st') = ''Study session completed!''"
    by auto
  moreover have "min (length rs) (length (deck_cards d) - 1) \<noteq> length (deck_cards d)"
    using assms(2) by (cases "deck_cards d") auto
  ultimately show ?thesis using s0 p0 by auto
qed

theorem progress_after_ratings_witness:
  "find (\<lambda>d. deck_id d = ''d1'') (decks (stored_app new_card)) = Some deck1 \<and>
   deck_cards deck1 = [0] \<and>
   startStudySession ''d1'' (stored_app new_card) = Inr (studying new_card) \<and>
   progress_text (dom (studying new_card)) = (0, 1) \<and>
   \<not> isl (rateAll [(Num 3, ''2024-01-02T00:00:00.000Z'')] (studying new_card)) \<and>
   currentStudySession (projr (rateAll [(Num 3, ''2024-01-02T00:00:00.000Z'')]
       (studying new_card))) =
     Some \<lparr>session_deckId = ''d1'', session_cards = [0], currentIndex = 1\<rparr> \<and>
   question_text (dom (projr (rateAll [(Num 3, ''2024-01-02T00:00:00.000Z'')]
       (studying new_card)))) = ''Study session completed!'' \<and>
   progress_text (dom (projr (rateAll [(Num 3, ''2024-01-02T00:00:00.000Z'')]
       (studying new_card)))) = (0, 1)"
proof -
  have f: "find (\<lambda>d. deck_id d = ''d1'') (decks (stored_app new_card)) = Some deck1"
    by (simp add: stored_app_def AksonApp_def deck1_def)
  have n: "deck_cards deck1 \<noteq> []" by (simp add: deck1_def)
  have l: "length [(Num 3, ''2024-01-02T00:00:00.000Z'')] \<le> length (deck_cards deck1)"
    by (simp add: deck1_def)
  have s: "startStudySession ''d1'' (stored_app new_card) = Inr (studying new_card)"
    using startStudySession_heap [of "''d1''" "stored_app new_card"]
    by (auto simp: studying_def fire_def)
  show ?thesis
    using f s progress_after_ratings [OF f n l]
    by (auto simp: deck1_def studying_eq)
qed

subsection \<open>Deck edits during a session\<close>

text \<open>
  A deck edit leaves the session object alone and only appends to the heap; the other
  handlers act alike on two states whose sessions are equal and whose session cards agree.
\<close>

lemma deck_edit_fire:
  assumes "deck_edit ev"
  shows "\<exists>st'. fire ev st = Inr st' \<and> currentStudySession st' = currentStudySession st \<and>
     length (heap st) \<le> length (heap st') \<and>
     (\<forall>x<length (heap st). heap st' ! x = heap st ! x)"
  using assms
  by (cases ev)
     (auto simp: deck_edit_def fire_def handleAddDeck_def handleAddCard_def deleteDeck_def
        nth_append split: option.splits)

lemma switchView_started:
  assumes "currentStudySession st = Some s"
  shows "\<exists>st'. switchView v st = Inr st' \<and> currentStudySession st' = Some s \<and>
     heap st' = heap st"
  using assms
  by (cases v) (simp_all add: switchView.simps renderStudyView_started)

lemma rateCard_pair:
  assumes a: "currentStudySession a = Some s" and b: "currentStudySession b = Some s"
    and same: "\<forall>x\<in>set (session_cards s).
        x < length (heap a) \<and> x < length (heap b) \<and> heap a ! x = heap b ! x"
  shows "(rateCard r t a = Inl TypeError \<and> rateCard r t b = Inl TypeError) \<or>
     (\<exists>a' b' s'. rateCard r t a = Inr a' \<and> rateCard r t b = Inr b' \<and>
        currentStudySession a' = Some s' \<and> currentStudySession b' = Some s' \<and>
        session_cards s' = session_cards s \<and>
        (\<forall>x\<in>set (session_cards s).
          x < length (heap a') \<and> x < length (heap b') \<and> heap a' ! x = heap b' ! x))"
proof (cases "currentIndex s < length (session_cards s)")
  case False
  then show ?thesis using a b by (simp add: rateCard_def)
next
  case True
  let ?k = "session_cards s ! currentIndex s"
  have k: "?k \<in> set (session_cards s)" using True by simp
  have "\<forall>x\<in>set (session_cards s).
      x < length (setLastReviewed ?k t (heap a)) \<and> x < length (setLastReviewed ?k t (heap b)) \<and>
      setLastReviewed ?k t (heap a) ! x = setLastReviewed ?k t (heap b) ! x"
    using same k by (auto simp: setLastReviewed_def nth_list_update)
  then show ?thesis
    using a b True by (simp add: rateCard_active nextCard_frame)
qed

lemma run_erase:
  assumes "currentStudySession a = Some s" and "currentStudySession b = Some s"
    and "\<forall>x\<in>set (session_cards s).
        x < length (heap a) \<and> x < length (heap b) \<and> heap a ! x = heap b ! x"
    and "\<forall>ev\<in>set evs. \<not> starts ev"
  shows "\<exists>s'. currentStudySession (run evs a) = Some s' \<and>
      currentStudySession (run (filter (\<lambda>ev. \<not> deck_edit ev) evs) b) = Some s' \<and>
      session_cards s' = session_cards s \<and>
      (\<forall>x\<in>set (session_cards s).
         x < length (heap (run evs a)) \<and>
         x < length (heap (run (filter (\<lambda>ev. \<not> deck_edit ev) evs) b)) \<and>
         heap (run evs a) ! x = heap (run (filter (\<lambda>ev. \<not> deck_edit ev) evs) b) ! x)"
  using assms
proof (induction evs arbitrary: a b s)
  case Nil
  then show ?case by simp
next
  case (Cons ev evs)
  have rest: "\<forall>ev\<in>set evs. \<not> starts ev" using Cons.prems(4) by simp
  show ?case
  proof (cases "deck_edit ev")
    case True
    obtain a' where f: "fire ev a = Inr a'"
      and c: "currentStudySession a' = Some s"
      and l: "length (heap a) \<le> length (heap a')"
      and h: "\<forall>x<length (heap a). heap a' ! x = heap a ! x"
      using deck_edit_fire [OF True, of a] Cons.prems(1) by auto
    have "\<forall>x\<in>set (session_cards s).
        x < length (heap a') \<and> x < length (heap b) \<and> heap a' ! x = heap b ! x"
      using Cons.prems(3) l h by fastforce
    from Cons.IH [OF c Cons.prems(2) this rest] show ?thesis
      using True f by simp
  next
    case False
    show ?thesis
    proof (cases ev)
      case (Navigate v)
      obtain a' where fa: "switchView v a = Inr a'" "currentStudySession a' = Some s"
          "heap a' = heap a"
        using switchView_started [OF Cons.prems(1)] by blast
      obtain b' where fb: "switchView v b = Inr b'" "currentStudySession b' = Some s"
          "heap b' = heap b"
        using switchView_started [OF Cons.prems(2)] by blast
      have "\<forall>x\<in>set (session_cards s).
          x < length (heap a') \<and> x < length (heap b') \<and> heap a' ! x = heap b' ! x"
        using Cons.prems(3) fa(3) fb(3) by simp
      from Cons.IH [OF fa(2) fb(2) this rest] show ?thesis
        using False Navigate fa(1) fb(1) by (simp add: fire_def)
    next
      case ClickShowAnswer
      have "\<forall>x\<in>set (session_cards s).
          x < length (heap (showAnswer a)) \<and> x < length (heap (showAnswer b)) \<and>
          heap (showAnswer a) ! x = heap (showAnswer b) ! x"
        using Cons.prems(3) by (simp add: showAnswer_def)
      moreover have "currentStudySession (showAnswer a) = Some s"
        "currentStudySession (showAnswer b) = Some s"
        using Cons.prems(1,2) by (simp_all add: showAnswer_def)
      ultimately show ?thesis
        using Cons.IH [of "showAnswer a" s "showAnswer b"] rest False ClickShowAnswer
        by (simp add: fire_def)
    next
      case (ClickRating r t)
      from rateCard_pair [OF Cons.prems(1) Cons.prems(2) Cons.prems(3), of r t]
      show ?thesis
      proof
        assume "rateCard r t a = Inl TypeError \<and> rateCard r t b = Inl TypeError"
        then show ?thesis
          using Cons.IH [OF Cons.prems(1) Cons.prems(2) Cons.prems(3) rest] False ClickRating
          by (simp add: fire_def)
      next
        assume "\<exists>a' b' s'. rateCard r t a = Inr a' \<and> rateCard r t b = Inr b' \<and>
          currentStudySession a' = Some s' \<and> currentStudySession b' = Some s' \<and>
          session_cards s' = session_cards s \<and>
          (\<forall>x\<in>set (session_cards s).
            x < length (heap a') \<and> x < length (heap b') \<and> heap a' ! x = heap b' ! x)"
        then obtain a' b' s' where ra: "rateCard r t a = Inr a'"
          and rb: "rateCard r t b = Inr b'"
          and ca: "currentStudySession a' = Some s'" and cb: "currentStudySession b' = Some s'"
          and cs: "session_cards s' = session_cards s"
          and hs: "\<forall>x\<in>set (session_cards s).
            x < length (heap a') \<and> x < length (heap b') \<and> heap a' ! x = heap b' ! x"
          by blast
        have "\<forall>x\<in>set (session_cards s').
            x < length (heap a') \<and> x < length (heap b') \<and> heap a' ! x = heap b' ! x"
          using hs cs by simp
        from Cons.IH [OF ca cb this rest] show ?thesis
          using False ClickRating ra rb cs by (simp add: fire_def)
      qed
    next
      case (ClickStudy d)
      then show ?thesis using Cons.prems(4) by (simp add: starts_def)
    qed (use False in \<open>simp_all add: deck_edit_def\<close>)
  qed
qed

text \<open>
  Claim C9. A session started on a deck holds the cards the deck had at that moment.
  Whatever the user does afterwards short of starting a new session, the deck edits among
  these actions (adding a card to the deck, adding a deck, deleting the deck) can be left
  out without changing the session: its sequence of cards, every field of every one of
  them and its cursor come out the same, as the ratings alone made them. In particular,
  after deck edits only, the session still holds exactly the cards the deck had at the
  start.
\<close>

theorem session_unaffected_by_deck_edits:
  assumes "find (\<lambda>d. deck_id d = deckId) (decks st) = Some d"
    and "deck_cards d \<noteq> []"
    and "\<forall>a\<in>set (deck_cards d). a < length (heap st)"
    and "startStudySession deckId st = Inr st0"
    and "\<forall>ev\<in>set evs. \<not> starts ev"
  shows "session_view st0 = Some (map (\<lambda>a. heap st ! a) (deck_cards d), 0) \<and>
     currentStudySession (run evs st0) =
       currentStudySession (run (filter (\<lambda>ev. \<not> deck_edit ev) evs) st0) \<and>
     session_view (run evs st0) = session_view (run (filter (\<lambda>ev. \<not> deck_edit ev) evs) st0) \<and>
     ((\<forall>ev\<in>set evs. deck_edit ev) \<longrightarrow>
        currentStudySession (run evs st0) = currentStudySession st0 \<and>
        session_view (run evs st0) = Some (map (\<lambda>a. heap st ! a) (deck_cards d), 0))"
proof -
  let ?s = "\<lparr>session_deckId = deckId, session_cards = deck_cards d, currentIndex = 0\<rparr>"
  let ?keep = "filter (\<lambda>ev. \<not> deck_edit ev) evs"
  have c0: "currentStudySession st0 = Some ?s" and h0: "heap st0 = heap st"
    using assms(1,2,4) by (auto simp: startStudySession_found)
  have v0: "session_view st0 = Some (map (\<lambda>a. heap st ! a) (deck_cards d), 0)"
    by (simp add: session_view_def c0 h0)
  have same: "\<forall>x\<in>set (session_cards ?s).
      x < length (heap st0) \<and> x < length (heap st0) \<and> heap st0 ! x = heap st0 ! x"
    using assms(3) h0 by simp
  obtain s' where a: "currentStudySession (run evs st0) = Some s'"
    and b: "currentStudySession (run ?keep st0) = Some s'"
    and cs: "session_cards s' = session_cards ?s"
    and hs: "\<forall>x\<in>set (session_cards ?s). heap (run evs st0) ! x = heap (run ?keep st0) ! x"
    using run_erase [OF c0 c0 same assms(5)] by blast
  have "map (\<lambda>a. heap (run evs st0) ! a) (session_cards s') =
      map (\<lambda>a. heap (run ?keep st0) ! a) (session_cards s')"
    using hs cs by simp
  then have v: "session_view (run evs st0) = session_view (run ?keep st0)"
    by (simp add: session_view_def a b)
  have e: "(\<forall>ev\<in>set evs. deck_edit ev) \<longrightarrow> ?keep = []"
    by (simp add: filter_empty_conv)
  show ?thesis
    using v0 a b v e by auto
qed

theorem session_unaffected_by_deck_edits_witness:
  "find (\<lambda>d. deck_id d = ''d1'') (decks (stored_app new_card)) = Some deck1 \<and>
   deck_cards deck1 = [0] \<and>
   length (heap (stored_app new_card)) = 1 \<and>
   startStudySession ''d1'' (stored_app new_card) = Inr (studying new_card) \<and>
   filter (\<lambda>ev. \<not> deck_edit ev) edit_events =
     [ClickShowAnswer, ClickRating (Num 3) ''2024-01-02T00:05:00.000Z''] \<and>
   session_view (studying new_card) = Some ([new_card], 0) \<and>
   decks (run edit_events (studying new_card)) = [] \<and>
   length (heap (run edit_events (studying new_card))) = 2 \<and>
   session_view (run [ClickShowAnswer, ClickRating (Num 3) ''2024-01-02T00:05:00.000Z'']
       (studying new_card)) =
     Some ([new_card\<lparr>lastReviewed := Some ''2024-01-02T00:05:00.000Z''\<rparr>], 1) \<and>
   session_view (run edit_events (studying new_card)) =
     Some ([new_card\<lparr>lastReviewed := Some ''2024-01-02T00:05:00.000Z''\<rparr>], 1)"
proof -
  have f: "find (\<lambda>d. deck_id d = ''d1'') (decks (stored_app new_card)) = Some deck1"
    by (simp add: stored_app_def AksonApp_def deck1_def)
  have n: "deck_cards deck1 \<noteq> []" and c: "deck_cards deck1 = [0]"
    by (simp_all add: deck1_def)
  have l: "length (heap (stored_app new_card)) = 1"
    by (simp add: stored_app_def AksonApp_def)
  have w: "\<forall>a\<in>set (deck_cards deck1). a < length (heap (stored_app new_card))"
    by (simp add: c l)
  have s: "startStudySession ''d1'' (stored_app new_card) = Inr (studying new_card)"
    using startStudySession_heap [of "''d1''" "stored_app new_card"]
    by (auto simp: studying_def fire_def)
  have p: "\<forall>ev\<in>set edit_events. \<not> starts ev"
    by (simp add: edit_events_def starts_def)
  have k: "filter (\<lambda>ev. \<not> deck_edit ev) edit_events =
     [ClickShowAnswer, ClickRating (Num 3) ''2024-01-02T00:05:00.000Z'']"
    by (simp add: edit_events_def deck_edit_def)
  have d: "decks (run edit_events (studying new_card)) = []"
    and h: "length (heap (run edit_events (studying new_card))) = 2"
    by (simp_all add: edit_events_def studying_eq fire_def handleAddCard_def deleteDeck_def
        showAnswer_def rateCard_def nextCard_def setLastReviewed_def deck1_def)
  have r: "session_view (run [ClickShowAnswer,
       ClickRating (Num 3) ''2024-01-02T00:05:00.000Z''] (studying new_card)) =
     Some ([new_card\<lparr>lastReviewed := Some ''2024-01-02T00:05:00.000Z''\<rparr>], 1)"
    by (simp add: studying_eq fire_def showAnswer_def rateCard_def nextCard_def
        setLastReviewed_def session_view_def)
  have v: "session_view (studying new_card) = Some ([new_card], 0)"
    by (simp add: studying_eq session_view_def)
  have "session_view (run edit_events (studying new_card)) =
      session_view (run (filter (\<lambda>ev. \<not> deck_edit ev) edit_events) (studying new_card))"
    using session_unaffected_by_deck_edits [OF f n w s p] by blast
  then have "session_view (run edit_events (studying new_card)) =
      session_view (run [ClickShowAnswer, ClickRating (Num 3) ''2024-01-02T00:05:00.000Z'']
        (studying new_card))"
    unfolding k .
  then have "session_view (run edit_events (studying new_card)) =
     Some ([new_card\<lparr>lastReviewed := Some ''2024-01-02T00:05:00.000Z''\<rparr>], 1)"
    using r by (rule trans)
  then show ?thesis using f c l s k v d h r by simp
qed

subsection \<open>The scheduling fields over any use of the page\<close>

text \<open>
  Claim C4. \<open>handleAddCard\<close> creates a card with \<open>interval\<close> 0, \<open>easeFactor\<close> 2.5 and
  \<open>repetitions\<close> 0 (or adds nothing). Whatever the user then does, in any order and any
  number of times (ratings of any value, sessions, new decks and cards, deletions),
  every card satisfies \<open>easeFactor \<ge> 1.3\<close> and \<open>interval \<ge> 0\<close> after each step, provided
  the cards present at the beginning did; on a page that started with empty storage every
  card still has exactly the three values it was created with.
\<close>

theorem scheduling_invariant:
  assumes "\<forall>c\<in>set (heap st). easeFactor c \<ge> 1.3 \<and> interval c \<ge> 0"
  shows "(\<forall>c\<in>set (heap (run evs st)). easeFactor c \<ge> 1.3 \<and> interval c \<ge> 0) \<and>
     (\<forall>c\<in>set (heap (run evs (AksonApp None page))).
         interval c = 0 \<and> easeFactor c = 2.5 \<and> repetitions c = 0) \<and>
     (heap (handleAddCard k q a i c r st) = heap st \<or>
      heap (handleAddCard k q a i c r st) = heap st @ [newCard q a i c r]) \<and>
     interval (newCard q a i c r) = 0 \<and> easeFactor (newCard q a i c r) = 2.5 \<and>
     repetitions (newCard q a i c r) = 0"
proof -
  have "\<forall>c\<in>set (heap (run evs st)). card_inv c"
    using assms by (intro run_pres) (simp_all add: card_inv_def newCard_def)
  then have 1: "\<forall>c\<in>set (heap (run evs st)). easeFactor c \<ge> 1.3 \<and> interval c \<ge> 0"
    by (simp add: card_inv_def)
  have 2: "\<forall>c\<in>set (heap (run evs (AksonApp None page))).
         interval c = 0 \<and> easeFactor c = 2.5 \<and> repetitions c = 0"
    by (intro run_pres) (simp_all add: newCard_def AksonApp_def)
  show ?thesis
    using 1 2 handleAddCard_heap [of k q a i c r st] by (simp add: newCard_def)
qed

theorem scheduling_invariant_witness:
  "heap (AksonApp None blank_page) = [] \<and>
   heap (run example_events (AksonApp None blank_page)) =
     [(newCard '' Q'' ''A '' ''1704067200000'' ''2024-01-01T00:00:00.000Z''
         ''2024-01-01T00:00:00.000Z'')\<lparr>lastReviewed := Some ''2024-01-03T00:00:00.000Z''\<rparr>] \<and>
   easeFactor (heap (run example_events (AksonApp None blank_page)) ! 0) \<ge> 1.3 \<and>
   interval (heap (run example_events (AksonApp None blank_page)) ! 0) \<ge> 0 \<and>
   easeFactor (heap (run example_events (AksonApp None blank_page)) ! 0) = 2.5"
proof -
  have h: "\<forall>c\<in>set (heap (AksonApp None blank_page)). easeFactor c \<ge> 1.3 \<and> interval c \<ge> 0"
    by (simp add: AksonApp_def)
  have m: "heap (run example_events (AksonApp None blank_page)) ! 0
      \<in> set (heap (run example_events (AksonApp None blank_page)))"
    by (simp add: example_run)
  have e: "heap (AksonApp None blank_page) = []" by (simp add: AksonApp_def)
  show ?thesis
    using e m scheduling_invariant [OF h, of example_events blank_page]
    by (auto simp: example_run)
qed

end
